theory Spec2Isabelle
  imports Main "HOL-Library.Word"
begin

section \<open>Python values used by \<open>main.py\<close>\<close>

text \<open>
  A Python \<open>bytes\<close> object is a list of 8-bit words. A Python \<open>str\<close> is a \<open>string\<close>:
  header values reach the handler decoded as Latin-1, so every code point of a header is below
  256 and is one \<open>char\<close>. The strings of the settings are taken from the same range.
\<close>

type_synonym bytes = "8 word list"

text \<open>The truth value of an \<open>Optional[str]\<close>: \<open>None\<close> and the empty string are false.\<close>

definition truthy :: "string option \<Rightarrow> bool" where
  "truthy x = (case x of None \<Rightarrow> False | Some s \<Rightarrow> s \<noteq> [])"

text \<open>\<open>str.encode()\<close>: UTF-8, one byte below 128 and two bytes from 128 to 255.\<close>

definition encode_char :: "char \<Rightarrow> bytes" where
  "encode_char c =
     (let n = (of_char c :: nat)
      in if n < 128 then [of_nat n] else [of_nat (192 + n div 64), of_nat (128 + n mod 64)])"

definition encode :: "string \<Rightarrow> bytes" where
  "encode s = concat (map encode_char s)"

definition is_ascii :: "string \<Rightarrow> bool" where
  "is_ascii s = list_all (\<lambda>c. (of_char c :: nat) < 128) s"

text \<open>\<open>str.lower()\<close> on the ASCII letters, which is all a header name holds.\<close>

definition lower_char :: "char \<Rightarrow> char" where
  "lower_char c =
     (let n = (of_char c :: nat) in if 65 \<le> n \<and> n \<le> 90 then char_of (n + 32) else c)"

definition lower :: "string \<Rightarrow> string" where
  "lower s = map lower_char s"

text \<open>\<open>str(n)\<close> for a Python integer.\<close>

fun str_nat :: "nat \<Rightarrow> string" where
  "str_nat n = (if n < 10 then [char_of (48 + n)] else str_nat (n div 10) @ [char_of (48 + n mod 10)])"

definition str_int :: "int \<Rightarrow> string" where
  "str_int i = (if i < 0 then CHR ''-'' # str_nat (nat (- i)) else str_nat (nat i))"

text \<open>
  The exceptions that can leave the functions of \<open>main.py\<close>. \<open>HTTPException\<close> carries the
  status code and the detail; \<open>HTTPStatusError\<close> is what \<open>raise_for_status\<close> raises and
  \<open>RequestError\<close> what the HTTP client raises when the request itself fails.
\<close>

datatype py_error =
    HTTPException nat string
  | AttributeError
  | TypeError
  | KeyError
  | JSONDecodeError
  | HTTPStatusError nat
  | RequestError

text \<open>
  \<open>hmac.compare_digest\<close> on two \<open>str\<close> arguments: it raises \<open>TypeError\<close> when either
  holds a non-ASCII character, and otherwise tells whether they are equal. Its running time is
  not modelled.
\<close>

definition compare_digest :: "string \<Rightarrow> string \<Rightarrow> py_error + bool" where
  "compare_digest a b = (if is_ascii a \<and> is_ascii b then Inr (a = b) else Inl TypeError)"

text \<open>
  \<open>hexdigest()\<close> of a SHA-256 HMAC: the 256-bit digest as 64 lower-case hexadecimal digits,
  the most significant first.
\<close>

definition hex_digit :: "nat \<Rightarrow> char" where
  "hex_digit n = ''0123456789abcdef'' ! n"

definition hexdigest :: "256 word \<Rightarrow> string" where
  "hexdigest w = map (\<lambda>i. hex_digit (unat (drop_bit (4 * i) w) mod 16)) (rev [0..<64])"

section \<open>Data model\<close>

record Settings =
  api_url :: string
  api_username :: "string option"
  api_password :: "string option"
  webhook_secret :: "string option"
  webhook_url :: "string option"
  ssl_cert :: "string option"
  ssl_key :: "string option"

text \<open>The type \<open>'dt\<close> stands for \<open>datetime\<close>.\<close>

record 'dt SMSReceivedData =
  message :: string
  received_at :: 'dt
  message_id :: string
  phone_number :: string
  sim_number :: int

record 'dt WebhookPayload =
  device_id :: string
  event :: string
  id' :: string
  webhook_id :: string
  payload :: "'dt SMSReceivedData"

text \<open>
  \<open>app.state\<close>: the attribute \<open>webhook_id\<close> exists only after a registration has stored it,
  so it is optional; \<open>None\<close> is the state in which \<open>hasattr(app.state, "webhook_id")\<close> is
  false and reading the attribute raises \<open>AttributeError\<close>.
\<close>

record State =
  state_webhook_id :: "string option"

definition initial_state :: State where
  "initial_state = \<lparr>state_webhook_id = None\<rparr>"

text \<open>
  The request as the handler reads it: the raw body and the headers, whose names the server
  delivers in lower case.
\<close>

record Request =
  body :: bytes
  headers :: "(string \<times> string) list"

definition headers_get :: "Request \<Rightarrow> string \<Rightarrow> string option" where
  "headers_get request key = map_of (headers request) (lower key)"

text \<open>
  The library functions the program calls and that are not part of the repository are
  parameters of the model: the SHA-256 HMAC of a message under a key
  (\<open>hmac.new(key, msg, hashlib.sha256)\<close>), the validation of a JSON body against the
  \<open>WebhookPayload\<close> schema (\<open>None\<close> when \<open>model_validate_json\<close> raises), and \<open>str\<close> of a
  \<open>datetime\<close>.
\<close>

record 'dt Library =
  hmac_sha256 :: "bytes \<Rightarrow> bytes \<Rightarrow> 256 word"
  model_validate_json :: "bytes \<Rightarrow> 'dt WebhookPayload option"
  str_datetime :: "'dt \<Rightarrow> string"

section \<open>Gateway client\<close>

text \<open>
  An outbound call is the method with its URL, the basic-auth pair and, for a POST, the JSON
  object sent. The gateway answers a call either with a failure of the transport or with a
  status code and a body. \<open>Some obj\<close> is a body that parses to a JSON object whose members
  are strings, which is the form in which the gateway gives the webhook and its \<open>id\<close>;
  \<open>None\<close> is a body that is not JSON, for which \<open>response.json()\<close> raises. A JSON body
  of another shape (a member that is not a string, or no object at all) is not a value of this
  type, and the model says nothing about such a reply.
\<close>

datatype http_call =
    POST string "string \<times> string" "(string \<times> string) list"
  | DELETE string "string \<times> string"

datatype http_reply =
    ConnectError
  | Response nat "(string \<times> string) list option"

definition is_success :: "nat \<Rightarrow> bool" where
  "is_success code = (200 \<le> code \<and> code \<le> 299)"

text \<open>
  Each operation returns the outbound calls it made, the lines it printed, and either the
  exception that left it or the application state it leaves behind.
\<close>

type_synonym effects = "http_call list \<times> string list \<times> (py_error + State)"

definition register_webhook :: "(http_call \<Rightarrow> http_reply) \<Rightarrow> Settings \<Rightarrow> State \<Rightarrow> effects" where
  "register_webhook gateway settings st =
     (if \<not> truthy (api_username settings) \<or> \<not> truthy (api_password settings)
         \<or> \<not> truthy (webhook_url settings)
      then ([], [], Inr st)
      else
        let call = POST (api_url settings @ ''/webhooks'')
                     (the (api_username settings), the (api_password settings))
                     [(''url'', the (webhook_url settings)), (''event'', ''sms:received'')]
        in case gateway call of
             ConnectError \<Rightarrow> ([call], [], Inl RequestError)
           | Response code reply \<Rightarrow>
               if \<not> is_success code then ([call], [], Inl (HTTPStatusError code))
               else (case reply of
                       None \<Rightarrow> ([call], [], Inl JSONDecodeError)
                     | Some webhook_data \<Rightarrow>
                         (case map_of webhook_data ''id'' of
                            None \<Rightarrow> ([call], [], Inl KeyError)
                          | Some wid \<Rightarrow>
                              ([call], [''Registered webhook with ID: '' @ wid],
                               Inr (st\<lparr>state_webhook_id := Some wid\<rparr>)))))"

definition unregister_webhook :: "(http_call \<Rightarrow> http_reply) \<Rightarrow> Settings \<Rightarrow> State \<Rightarrow> effects" where
  "unregister_webhook gateway settings st =
     (if \<not> truthy (api_username settings) \<or> \<not> truthy (api_password settings)
         \<or> \<not> truthy (webhook_url settings) \<or> state_webhook_id st = None
      then ([], [], Inr st)
      else
        let call = DELETE (api_url settings @ ''/webhooks/'' @ the (state_webhook_id st))
                     (the (api_username settings), the (api_password settings))
        in case gateway call of
             ConnectError \<Rightarrow> ([call], [], Inl RequestError)
           | Response code reply \<Rightarrow>
               if \<not> is_success code then ([call], [], Inl (HTTPStatusError code))
               else ([call], [''Unregistered webhook ID: '' @ the (state_webhook_id st)], Inr st))"

text \<open>
  \<open>lifespan\<close>: the part before \<open>yield\<close> runs at startup and the part after it at shutdown;
  neither part catches anything.
\<close>

definition lifespan_startup :: "(http_call \<Rightarrow> http_reply) \<Rightarrow> Settings \<Rightarrow> State \<Rightarrow> effects" where
  "lifespan_startup gateway settings st = register_webhook gateway settings st"

definition lifespan_shutdown :: "(http_call \<Rightarrow> http_reply) \<Rightarrow> Settings \<Rightarrow> State \<Rightarrow> effects" where
  "lifespan_shutdown gateway settings st = unregister_webhook gateway settings st"

text \<open>
  The server that \<open>main.py\<close> starts with \<open>uvicorn.run(app, ...)\<close> drives \<open>lifespan\<close> and
  is what an exception of its shutdown part reaches. It is library code, as the framework
  behind \<open>respond\<close> is. At shutdown it runs the part of \<open>lifespan\<close> after \<open>yield\<close>; when
  that part raises, the server writes the exception with its traceback to its error log,
  then the line \<open>Application shutdown failed. Exiting.\<close>, and goes on to stop the process
  as it does after a clean shutdown, with exit code 0. A clean shutdown writes nothing to
  the error log.
\<close>

datatype log_record = Traceback py_error | Message string



section \<open>Webhook handler\<close>

text \<open>The signature stage of \<open>handle_sms_webhook\<close>.\<close>

definition verify_signature :: "'dt Library \<Rightarrow> Settings \<Rightarrow> Request \<Rightarrow> py_error + unit" where
  "verify_signature lib settings request =
     (if truthy (webhook_secret settings) then
        (let signature = headers_get request ''X-Signature'';
             timestamp = headers_get request ''X-Timestamp''
         in if \<not> truthy signature \<or> \<not> truthy timestamp
            then Inl (HTTPException 401 ''Missing signature header'')
            else
              let expected_signature =
                    hexdigest (hmac_sha256 lib (encode (the (webhook_secret settings)))
                                 (body request @ encode (the timestamp)))
              in case compare_digest (the signature) expected_signature of
                   Inl e \<Rightarrow> Inl e
                 | Inr same \<Rightarrow>
                     if \<not> same then Inl (HTTPException 401 ''Invalid signature'') else Inr ())
      else Inr ())"

text \<open>The lines printed for an accepted payload.\<close>

definition received_sms_lines :: "'dt Library \<Rightarrow> 'dt WebhookPayload \<Rightarrow> string list" where
  "received_sms_lines lib p =
     [''Received SMS:'',
      ''SIM: '' @ str_int (sim_number (payload p)),
      ''From: '' @ phone_number (payload p),
      ''Message: '' @ message (payload p),
      ''Received at: '' @ str_datetime lib (received_at (payload p))]"

text \<open>
  The handler returns the lines it printed and either the exception it raised or the
  dictionary it returned. It reads the application state and never writes it.
\<close>

definition handle_sms_webhook ::
  "'dt Library \<Rightarrow> Settings \<Rightarrow> State \<Rightarrow> Request \<Rightarrow> string list \<times> (py_error + (string \<times> string) list)" where
  "handle_sms_webhook lib settings st request =
     (case verify_signature lib settings request of
        Inl e \<Rightarrow> ([], Inl e)
      | Inr _ \<Rightarrow>
          (case model_validate_json lib (body request) of
             None \<Rightarrow> ([], Inl (HTTPException 400 ''Invalid payload format''))
           | Some p \<Rightarrow>
               (case state_webhook_id st of
                  None \<Rightarrow> ([], Inl AttributeError)
                | Some registered \<Rightarrow>
                    if webhook_id p \<noteq> registered
                    then ([], Inl (HTTPException 400 ''Invalid webhook ID''))
                    else (received_sms_lines lib p, Inr [(''status'', ''ok'')]))))"

text \<open>
  What the framework sends for a handler's outcome: the returned dictionary with status 200,
  an \<open>HTTPException\<close> with its own status and its detail, and any other exception as
  500 Internal Server Error.
\<close>

datatype http_body = Json "(string \<times> string) list" | Text string

definition respond :: "py_error + (string \<times> string) list \<Rightarrow> nat \<times> http_body" where
  "respond outcome =
     (case outcome of
        Inr d \<Rightarrow> (200, Json d)
      | Inl (HTTPException code detail) \<Rightarrow> (code, Json [(''detail'', detail)])
      | Inl _ \<Rightarrow> (500, Text ''Internal Server Error''))"

definition status_code :: "py_error + (string \<times> string) list \<Rightarrow> nat" where
  "status_code outcome = fst (respond outcome)"

text \<open>
  The server handling a sequence of requests one after the other: the console collects the
  printed lines, and the application state is the same for each request since the handler
  does not assign to it.
\<close>

fun serve ::
  "'dt Library \<Rightarrow> Settings \<Rightarrow> State \<Rightarrow> Request list \<Rightarrow> string list \<times> (nat \<times> http_body) list" where
  "serve lib settings st [] = ([], [])"
| "serve lib settings st (r # rs) =
     (case handle_sms_webhook lib settings st r of
        (printed, outcome) \<Rightarrow>
          (case serve lib settings st rs of
             (console, responses) \<Rightarrow> (printed @ console, respond outcome # responses)))"

section \<open>Concrete inputs\<close>

text \<open>
  Inputs at which the theorems below are instantiated. The library functions are parameters
  of every theorem; \<open>demo_library\<close> is one instance: a digest that depends on the key and
  the message, and a validator that accepts exactly \<open>demo_body\<close>.
\<close>

definition demo_payload :: "string WebhookPayload" where
  "demo_payload =
     \<lparr>device_id = ''dev1'', event = ''sms:received'', id' = ''evt1'', webhook_id = ''wh_123'',
      payload = \<lparr>message = ''hello'', received_at = ''2024-01-01 10:00:00+00:00'',
                 message_id = ''msg1'', phone_number = ''+3301020304'', sim_number = 1\<rparr>\<rparr>"

definition demo_body :: bytes where
  \<open>demo_body = encode (''{"deviceId":"dev1","event":"sms:received","id":"evt1","webhookId":"wh_123",''
     @ ''"payload":{"message":"hello","receivedAt":"2024-01-01T10:00:00Z","messageId":"msg1",''
     @ ''"phoneNumber":"+3301020304","simNumber":1}}'')\<close>

definition demo_library :: "string Library" where
  "demo_library =
     \<lparr>hmac_sha256 = (\<lambda>key msg. of_nat (sum_list (map unat key) + 3 * sum_list (map unat msg))),
      model_validate_json = (\<lambda>b. if b = demo_body then Some demo_payload else None),
      str_datetime = (\<lambda>d. d)\<rparr>"

definition demo_settings :: Settings where
  "demo_settings =
     \<lparr>api_url = ''https://api.sms-gate.app/3rdparty/v1'',
      api_username = Some ''user'', api_password = Some ''pass'',
      webhook_secret = Some ''s3cret'',
      webhook_url = Some ''https://example.org/webhook/sms-received'',
      ssl_cert = None, ssl_key = None\<rparr>"

definition bare_settings :: Settings where
  "bare_settings =
     \<lparr>api_url = ''https://api.sms-gate.app/3rdparty/v1'',
      api_username = None, api_password = None, webhook_secret = None, webhook_url = None,
      ssl_cert = None, ssl_key = None\<rparr>"

definition demo_state :: State where
  "demo_state = \<lparr>state_webhook_id = Some ''wh_123''\<rparr>"

text \<open>A request with body \<open>b\<close> signed under \<open>demo_settings\<close>' secret for timestamp \<open>ts\<close>.\<close>

definition signed_request :: "bytes \<Rightarrow> string \<Rightarrow> Request" where
  "signed_request b ts =
     \<lparr>body = b,
      headers = [(''x-signature'',
                  hexdigest (hmac_sha256 demo_library (encode ''s3cret'') (b @ encode ts))),
                 (''x-timestamp'', ts)]\<rparr>"

definition unsigned_request :: "bytes \<Rightarrow> Request" where
  "unsigned_request b = \<lparr>body = b, headers = []\<rparr>"

definition failing_gateway :: "http_call \<Rightarrow> http_reply" where
  "failing_gateway call = Response 500 None"

definition demo_gateway :: "http_call \<Rightarrow> http_reply" where
  "demo_gateway call =
     (case call of
        POST url auth data \<Rightarrow> Response 201 (Some [(''id'', ''wh_123'')])
      | DELETE url auth \<Rightarrow> Response 204 None)"

text \<open>
  Two requests whose signature is not the digest: one with a short ASCII value, one with a
  single byte above 127, which the server decodes to a non-ASCII character.
\<close>

definition forged_request :: Request where
  "forged_request =
     \<lparr>body = demo_body,
      headers = [(''x-signature'', ''deadbeef''), (''x-timestamp'', ''1700000000'')]\<rparr>"

definition garbled_request :: Request where
  "garbled_request =
     \<lparr>body = demo_body,
      headers = [(''x-signature'', [CHR 0xFF]), (''x-timestamp'', ''1700000000'')]\<rparr>"

section \<open>Facts about the Python values\<close>

lemma lower_X_Signature: "lower ''X-Signature'' = ''x-signature''"
  by code_simp

lemma lower_X_Timestamp: "lower ''X-Timestamp'' = ''x-timestamp''"
  by code_simp

lemma length_hexdigest: "length (hexdigest w) = 64"
  by (simp add: hexdigest_def)

lemma hexdigest_not_Nil: "hexdigest w \<noteq> []"
  using length_hexdigest [of w] by auto

lemma short_is_no_digest: "length s \<noteq> 64 \<Longrightarrow> s \<noteq> hexdigest w"
  using length_hexdigest [of w] by auto

lemma hex_digit_ascii: "n < 16 \<Longrightarrow> (of_char (hex_digit n) :: nat) < 128"
proof -
  have "list_all (\<lambda>c. (of_char c :: nat) < 128) ''0123456789abcdef''" by simp
  moreover assume "n < 16"
  ultimately show ?thesis
    by (simp add: hex_digit_def list_all_length)
qed

lemma is_ascii_hexdigest: "is_ascii (hexdigest w)"
  by (simp add: is_ascii_def hexdigest_def list_all_iff hex_digit_ascii)

lemma status_code_simps:
  "status_code (Inr d) = 200"
  "status_code (Inl (HTTPException code detail)) = code"
  "status_code (Inl AttributeError) = 500"
  "status_code (Inl TypeError) = 500"
  by (simp_all add: status_code_def respond_def)

section \<open>The signature stage\<close>

lemma verify_signature_no_secret:
  "\<not> truthy (webhook_secret settings) \<Longrightarrow> verify_signature lib settings request = Inr ()"
  by (simp add: verify_signature_def)

lemma verify_signature_missing:
  assumes "truthy (webhook_secret settings)"
    and "\<not> truthy (headers_get request ''X-Signature'')
         \<or> \<not> truthy (headers_get request ''X-Timestamp'')"
  shows "verify_signature lib settings request =
           Inl (HTTPException 401 ''Missing signature header'')"
  using assms by (auto simp: verify_signature_def Let_def)

lemma verify_signature_ascii:
  assumes "webhook_secret settings = Some secret" and "secret \<noteq> []"
    and "headers_get request ''X-Signature'' = Some sig" and "sig \<noteq> []"
    and "headers_get request ''X-Timestamp'' = Some ts" and "ts \<noteq> []"
    and "is_ascii sig"
  shows "verify_signature lib settings request =
           (if sig = hexdigest (hmac_sha256 lib (encode secret) (body request @ encode ts))
            then Inr () else Inl (HTTPException 401 ''Invalid signature''))"
  using assms
  by (simp add: verify_signature_def Let_def truthy_def compare_digest_def is_ascii_hexdigest)

lemma verify_signature_non_ascii:
  assumes "webhook_secret settings = Some secret" and "secret \<noteq> []"
    and "headers_get request ''X-Signature'' = Some sig"
    and "headers_get request ''X-Timestamp'' = Some ts" and "ts \<noteq> []"
    and "\<not> is_ascii sig"
  shows "verify_signature lib settings request = Inl TypeError"
proof -
  from assms(6) have "sig \<noteq> []" by (auto simp: is_ascii_def)
  with assms show ?thesis
    by (simp add: verify_signature_def Let_def truthy_def compare_digest_def)
qed

text \<open>The four ways the signature stage can end.\<close>

lemma verify_signature_cases:
  "verify_signature lib settings request = Inr ()
   \<or> verify_signature lib settings request = Inl (HTTPException 401 ''Missing signature header'')
   \<or> verify_signature lib settings request = Inl (HTTPException 401 ''Invalid signature'')
   \<or> verify_signature lib settings request = Inl TypeError"
  by (simp add: verify_signature_def Let_def compare_digest_def)

text \<open>
  A request passes the stage when no secret is configured, or when its timestamp header is
  not empty and its signature header is the digest of the body followed by the timestamp.
\<close>

lemma verify_signature_correct:
  assumes "truthy (webhook_secret settings) \<Longrightarrow>
           \<exists>ts. ts \<noteq> [] \<and> headers_get request ''X-Timestamp'' = Some ts \<and>
             headers_get request ''X-Signature'' =
               Some (hexdigest (hmac_sha256 lib (encode (the (webhook_secret settings)))
                       (body request @ encode ts)))"
  shows "verify_signature lib settings request = Inr ()"
proof (cases "truthy (webhook_secret settings)")
  case False
  then show ?thesis by (rule verify_signature_no_secret)
next
  case True
  then obtain secret where s: "webhook_secret settings = Some secret" "secret \<noteq> []"
    by (auto simp: truthy_def split: option.splits)
  from assms [OF True] s obtain ts where ts: "ts \<noteq> []"
    "headers_get request ''X-Timestamp'' = Some ts"
    "headers_get request ''X-Signature'' =
       Some (hexdigest (hmac_sha256 lib (encode secret) (body request @ encode ts)))"
    by auto
  show ?thesis
    using verify_signature_ascii [where lib = lib, OF s ts(3) hexdigest_not_Nil ts(2) ts(1)
        is_ascii_hexdigest]
    by simp
qed

text \<open>An empty timestamp header counts as a missing one, whatever the signature is.\<close>

lemma empty_timestamp_is_missing:
  assumes "truthy (webhook_secret settings)"
    and "headers_get request ''X-Timestamp'' = Some []"
  shows "handle_sms_webhook lib settings st request =
           ([], Inl (HTTPException 401 ''Missing signature header''))"
  using verify_signature_missing [OF assms(1), of request lib] assms(2)
  by (simp add: handle_sms_webhook_def truthy_def)

section \<open>The stages after the signature\<close>

lemma handle_accepts:
  assumes "verify_signature lib settings request = Inr ()"
    and "model_validate_json lib (body request) = Some p"
    and "state_webhook_id st = Some (webhook_id p)"
  shows "handle_sms_webhook lib settings st request =
           (received_sms_lines lib p, Inr [(''status'', ''ok'')])"
  using assms by (simp add: handle_sms_webhook_def)

text \<open>
  A signature of ASCII characters that is not the digest is refused before the body is
  parsed: the result does not depend on \<open>model_validate_json\<close>.
\<close>

lemma mismatched_signature_rejected:
  assumes "webhook_secret settings = Some secret" and "secret \<noteq> []"
    and "headers_get request ''X-Signature'' = Some sig" and "sig \<noteq> []" and "is_ascii sig"
    and "headers_get request ''X-Timestamp'' = Some ts" and "ts \<noteq> []"
    and "sig \<noteq> hexdigest (hmac_sha256 lib (encode secret) (body request @ encode ts))"
  shows "handle_sms_webhook lib settings st request =
           ([], Inl (HTTPException 401 ''Invalid signature''))"
  using verify_signature_ascii [where lib = lib, OF assms(1,2,3,4,6,7,5)] assms(8)
  by (simp add: handle_sms_webhook_def)

text \<open>
  With no webhook id in the application state, a request that passes the signature stage and
  parses reaches the read of \<open>app.state.webhook_id\<close>, which raises \<open>AttributeError\<close>
  outside the \<open>try\<close> block: the answer is 500, not 400. \<open>unregister_webhook\<close> guards the
  same read with \<open>hasattr\<close>; the handler does not.
\<close>

lemma unregistered_valid_payload_raises:
  assumes "state_webhook_id st = None"
    and "verify_signature lib settings request = Inr ()"
    and "model_validate_json lib (body request) = Some p"
  shows "handle_sms_webhook lib settings st request = ([], Inl AttributeError)
    \<and> respond (snd (handle_sms_webhook lib settings st request)) =
        (500, Text ''Internal Server Error'')"
  using assms by (simp add: handle_sms_webhook_def respond_def)

lemma startup_without_credentials:
  assumes "\<not> (truthy (api_username settings) \<and> truthy (api_password settings)
              \<and> truthy (webhook_url settings))"
  shows "lifespan_startup gateway settings initial_state = ([], [], Inr initial_state)"
  using assms by (auto simp: lifespan_startup_def register_webhook_def)


section \<open>Facts about the concrete inputs\<close>

lemma headers_get_signed:
  "headers_get (signed_request b ts) ''X-Signature'' =
     Some (hexdigest (hmac_sha256 demo_library (encode ''s3cret'') (b @ encode ts)))"
  "headers_get (signed_request b ts) ''X-Timestamp'' = Some ts"
  "body (signed_request b ts) = b"
  by (simp_all add: headers_get_def signed_request_def lower_X_Signature lower_X_Timestamp)

lemma headers_get_unsigned:
  "headers_get (unsigned_request b) key = None" "body (unsigned_request b) = b"
  by (simp_all add: headers_get_def unsigned_request_def)

lemma headers_get_forged:
  "headers_get forged_request ''X-Signature'' = Some ''deadbeef''"
  "headers_get forged_request ''X-Timestamp'' = Some ''1700000000''"
  "body forged_request = demo_body"
  by (simp_all add: headers_get_def forged_request_def lower_X_Signature lower_X_Timestamp)

lemma headers_get_garbled:
  "headers_get garbled_request ''X-Signature'' = Some [CHR 0xFF]"
  "headers_get garbled_request ''X-Timestamp'' = Some ''1700000000''"
  by (simp_all add: headers_get_def garbled_request_def lower_X_Signature lower_X_Timestamp)

lemma demo_validate:
  "model_validate_json demo_library demo_body = Some demo_payload"
  "model_validate_json demo_library [] = None"
  by (simp_all add: demo_library_def demo_body_def encode_def encode_char_def)

lemma demo_str_datetime: "str_datetime demo_library d = d"
  by (simp add: demo_library_def)

lemma demo_settings_fields:
  "webhook_secret demo_settings = Some ''s3cret''"
  "api_username demo_settings = Some ''user''"
  "api_password demo_settings = Some ''pass''"
  "webhook_url demo_settings = Some ''https://example.org/webhook/sms-received''"
  "api_url demo_settings = ''https://api.sms-gate.app/3rdparty/v1''"
  by (simp_all add: demo_settings_def)

lemma bare_settings_fields:
  "webhook_secret bare_settings = None"
  "api_username bare_settings = None"
  "api_password bare_settings = None"
  "webhook_url bare_settings = None"
  by (simp_all add: bare_settings_def)

lemma verify_signed_request:
  "ts \<noteq> [] \<Longrightarrow> verify_signature demo_library demo_settings (signed_request b ts) = Inr ()"
  using verify_signature_ascii [where lib = demo_library and settings = demo_settings
      and request = "signed_request b ts" and secret = "''s3cret''" and ts = ts
      and sig = "hexdigest (hmac_sha256 demo_library (encode ''s3cret'') (b @ encode ts))"]
  by (simp add: demo_settings_fields headers_get_signed hexdigest_not_Nil is_ascii_hexdigest)

text \<open>
  The scenario of a whole run: startup registers the webhook and stores \<open>wh_123\<close>, a signed
  request for that id is accepted, and shutdown issues the DELETE for the stored id.
\<close>

lemma demo_run:
  "lifespan_startup demo_gateway demo_settings initial_state =
     ([POST ''https://api.sms-gate.app/3rdparty/v1/webhooks'' (''user'', ''pass'')
         [(''url'', ''https://example.org/webhook/sms-received''), (''event'', ''sms:received'')]],
      [''Registered webhook with ID: wh_123''], Inr demo_state)"
  "lifespan_shutdown demo_gateway demo_settings demo_state =
     ([DELETE ''https://api.sms-gate.app/3rdparty/v1/webhooks/wh_123'' (''user'', ''pass'')],
      [''Unregistered webhook ID: wh_123''], Inr demo_state)"
  by (simp_all add: lifespan_startup_def lifespan_shutdown_def register_webhook_def
      unregister_webhook_def demo_settings_fields truthy_def demo_gateway_def is_success_def
      initial_state_def demo_state_def)

section \<open>Claims about the webhook handler\<close>

subsection \<open>C1: a valid request is accepted and logged once\<close>

text \<open>
  Claim C1, amended. For every request whose body is a schema-valid payload whose
  \<open>webhookId\<close> is the registered webhook id, and which, when a shared secret is configured,
  carries a non-empty \<open>X-Timestamp\<close> header and an \<open>X-Signature\<close> header equal to the hex
  HMAC-SHA256 of the raw body followed by the encoded timestamp under that secret, the
  handler returns HTTP 200 with body \<open>{"status": "ok"}\<close> and prints the lines of
  \<open>received_sms_lines\<close> (the heading, then the SIM number, the phone number, the message and
  the received-at time, each once) and nothing else.
\<close>

theorem valid_request_accepted:
  assumes "model_validate_json lib (body request) = Some p"
    and "state_webhook_id st = Some (webhook_id p)"
    and "truthy (webhook_secret settings) \<Longrightarrow>
           \<exists>ts. ts \<noteq> [] \<and> headers_get request ''X-Timestamp'' = Some ts \<and>
             headers_get request ''X-Signature'' =
               Some (hexdigest (hmac_sha256 lib (encode (the (webhook_secret settings)))
                       (body request @ encode ts)))"
  shows "handle_sms_webhook lib settings st request =
           ([''Received SMS:'',
             ''SIM: '' @ str_int (sim_number (payload p)),
             ''From: '' @ phone_number (payload p),
             ''Message: '' @ message (payload p),
             ''Received at: '' @ str_datetime lib (received_at (payload p))],
            Inr [(''status'', ''ok'')])
         \<and> respond (snd (handle_sms_webhook lib settings st request)) =
           (200, Json [(''status'', ''ok'')])"
  using handle_accepts [OF verify_signature_correct [OF assms(3)] assms(1,2)]
  by (simp add: respond_def received_sms_lines_def)

theorem valid_request_accepted_witness:
  "handle_sms_webhook demo_library demo_settings demo_state
     (signed_request demo_body ''1700000000'') =
     ([''Received SMS:'', ''SIM: '' @ str_int 1, ''From: +3301020304'', ''Message: hello'',
       ''Received at: 2024-01-01 10:00:00+00:00''],
      Inr [(''status'', ''ok'')])
   \<and> respond (snd (handle_sms_webhook demo_library demo_settings demo_state
                     (signed_request demo_body ''1700000000''))) =
     (200, Json [(''status'', ''ok'')])"
proof -
  let ?r = "signed_request demo_body ''1700000000''"
  have a: "model_validate_json demo_library (body ?r) = Some demo_payload"
    by (simp add: headers_get_signed demo_validate)
  have b: "state_webhook_id demo_state = Some (webhook_id demo_payload)"
    by (simp add: demo_state_def demo_payload_def)
  have c: "\<exists>ts. ts \<noteq> [] \<and> headers_get ?r ''X-Timestamp'' = Some ts \<and>
             headers_get ?r ''X-Signature'' =
               Some (hexdigest (hmac_sha256 demo_library
                       (encode (the (webhook_secret demo_settings))) (body ?r @ encode ts)))"
    by (rule exI [of _ "''1700000000''"]) (simp add: headers_get_signed demo_settings_fields)
  from valid_request_accepted [OF a b c] show ?thesis
    by (simp add: demo_payload_def demo_str_datetime respond_def)
qed

text \<open>
  Claim C1 as stated fails where the \<open>X-Timestamp\<close> header is present and empty: the
  signature below is the digest of the body followed by that timestamp, the payload is valid
  and its id is the registered one, and the answer is 401, since the handler treats an empty
  header as a missing one.
\<close>

theorem empty_timestamp_rejected:
  "model_validate_json demo_library (body (signed_request demo_body [])) = Some demo_payload
   \<and> state_webhook_id demo_state = Some (webhook_id demo_payload)
   \<and> headers_get (signed_request demo_body []) ''X-Timestamp'' = Some []
   \<and> headers_get (signed_request demo_body []) ''X-Signature'' =
       Some (hexdigest (hmac_sha256 demo_library (encode (the (webhook_secret demo_settings)))
               (body (signed_request demo_body []) @ encode [])))
   \<and> handle_sms_webhook demo_library demo_settings demo_state (signed_request demo_body []) =
       ([], Inl (HTTPException 401 ''Missing signature header''))
   \<and> respond (snd (handle_sms_webhook demo_library demo_settings demo_state
                      (signed_request demo_body []))) =
       (401, Json [(''detail'', ''Missing signature header'')])"
  by (simp add: headers_get_signed demo_validate demo_settings_fields demo_state_def
      demo_payload_def handle_sms_webhook_def verify_signature_def truthy_def respond_def)

subsection \<open>C2: requests when no webhook was registered\<close>

text \<open>
  Claim C2 at a request the code does not answer with 400. Nothing is configured, so
  startup makes no outbound call and stores no webhook id. A request with a schema-valid body
  then passes the (skipped) signature stage and the parser and reaches the comparison with
  \<open>app.state.webhook_id\<close>; the attribute does not exist, reading it raises
  \<open>AttributeError\<close> outside the \<open>try\<close> block, nothing catches it, and the answer is
  500 Internal Server Error instead of the 400 of the webhook-id check.
\<close>

theorem unregistered_valid_request_is_500:
  "lifespan_startup demo_gateway bare_settings initial_state = ([], [], Inr initial_state)
   \<and> state_webhook_id initial_state = None
   \<and> model_validate_json demo_library (body (unsigned_request demo_body)) = Some demo_payload
   \<and> handle_sms_webhook demo_library bare_settings initial_state (unsigned_request demo_body) =
       ([], Inl AttributeError)
   \<and> respond (snd (handle_sms_webhook demo_library bare_settings initial_state
                      (unsigned_request demo_body))) =
       (500, Text ''Internal Server Error'')"
proof -
  have s: "lifespan_startup demo_gateway bare_settings initial_state =
             ([], [], Inr initial_state)"
    by (rule startup_without_credentials) (simp add: bare_settings_fields truthy_def)
  have n: "state_webhook_id initial_state = None"
    by (simp add: initial_state_def)
  have v: "verify_signature demo_library bare_settings (unsigned_request demo_body) = Inr ()"
    by (rule verify_signature_no_secret) (simp add: bare_settings_fields truthy_def)
  have p: "model_validate_json demo_library (body (unsigned_request demo_body)) =
             Some demo_payload"
    by (simp add: headers_get_unsigned demo_validate)
  from unregistered_valid_payload_raises [OF n v p] s n p show ?thesis
    by blast
qed

subsection \<open>C4: what the signature stage decides\<close>

text \<open>
  Claim C4, amended. When a shared secret is configured: every request whose \<open>X-Signature\<close>
  or \<open>X-Timestamp\<close> header is absent or empty gets HTTP 401; otherwise, when the
  \<open>X-Signature\<close> value is ASCII, the handler compares it with the hex HMAC-SHA256, under the
  secret, of the raw body followed by the encoded timestamp, and returns HTTP 401 exactly
  when the two differ.
\<close>

theorem signature_check_decides_401:
  assumes "webhook_secret settings = Some secret" and "secret \<noteq> []"
  shows "(\<not> truthy (headers_get request ''X-Signature'')
            \<or> \<not> truthy (headers_get request ''X-Timestamp'')
            \<longrightarrow> handle_sms_webhook lib settings st request =
                  ([], Inl (HTTPException 401 ''Missing signature header'')))
    \<and> (\<forall>sig ts. headers_get request ''X-Signature'' = Some sig \<and> sig \<noteq> [] \<and> is_ascii sig
           \<and> headers_get request ''X-Timestamp'' = Some ts \<and> ts \<noteq> [] \<longrightarrow>
          (status_code (snd (handle_sms_webhook lib settings st request)) = 401
           \<longleftrightarrow> sig \<noteq> hexdigest (hmac_sha256 lib (encode secret) (body request @ encode ts))))"
proof (intro conjI allI impI)
  assume "\<not> truthy (headers_get request ''X-Signature'')
          \<or> \<not> truthy (headers_get request ''X-Timestamp'')"
  with assms have "verify_signature lib settings request =
      Inl (HTTPException 401 ''Missing signature header'')"
    by (intro verify_signature_missing) (simp_all add: truthy_def)
  then show "handle_sms_webhook lib settings st request =
      ([], Inl (HTTPException 401 ''Missing signature header''))"
    by (simp add: handle_sms_webhook_def)
next
  fix sig ts
  assume h: "headers_get request ''X-Signature'' = Some sig \<and> sig \<noteq> [] \<and> is_ascii sig
           \<and> headers_get request ''X-Timestamp'' = Some ts \<and> ts \<noteq> []"
  then have v: "verify_signature lib settings request =
           (if sig = hexdigest (hmac_sha256 lib (encode secret) (body request @ encode ts))
            then Inr () else Inl (HTTPException 401 ''Invalid signature''))"
    using assms by (intro verify_signature_ascii) simp_all
  show "status_code (snd (handle_sms_webhook lib settings st request)) = 401
           \<longleftrightarrow> sig \<noteq> hexdigest (hmac_sha256 lib (encode secret) (body request @ encode ts))"
    by (simp add: handle_sms_webhook_def v status_code_simps split: option.splits)
qed

theorem signature_check_decides_401_witness:
  "status_code (snd (handle_sms_webhook demo_library demo_settings demo_state forged_request)) = 401
   \<and> status_code (snd (handle_sms_webhook demo_library demo_settings demo_state
                          (signed_request demo_body ''1700000000''))) \<noteq> 401
   \<and> handle_sms_webhook demo_library demo_settings demo_state (unsigned_request demo_body) =
       ([], Inl (HTTPException 401 ''Missing signature header''))"
proof -
  have s: "webhook_secret demo_settings = Some ''s3cret''" "''s3cret'' \<noteq> []"
    by (simp_all add: demo_settings_fields)
  have asc: "is_ascii ''deadbeef''"
    by (simp add: is_ascii_def)
  have ne: "''deadbeef'' \<noteq> hexdigest (hmac_sha256 demo_library (encode ''s3cret'')
                (body forged_request @ encode ''1700000000''))"
    by (rule short_is_no_digest) simp
  from signature_check_decides_401 [OF s, of forged_request demo_library demo_state]
    headers_get_forged(1,2) asc ne
  have "status_code (snd (handle_sms_webhook demo_library demo_settings demo_state
                            forged_request)) = 401"
    by simp
  moreover
  from signature_check_decides_401 [OF s, of "signed_request demo_body ''1700000000''"
      demo_library demo_state]
  have "status_code (snd (handle_sms_webhook demo_library demo_settings demo_state
                            (signed_request demo_body ''1700000000''))) \<noteq> 401"
    by (simp add: headers_get_signed hexdigest_not_Nil is_ascii_hexdigest)
  moreover
  from signature_check_decides_401 [OF s, of "unsigned_request demo_body" demo_library demo_state]
  have "handle_sms_webhook demo_library demo_settings demo_state (unsigned_request demo_body) =
       ([], Inl (HTTPException 401 ''Missing signature header''))"
    by (simp add: headers_get_unsigned truthy_def)
  ultimately show ?thesis by simp
qed

text \<open>
  Claim C4 as stated fails where both headers are present and the timestamp is empty: the
  signature equals the digest of the body followed by the timestamp, and the answer is 401
  all the same.
\<close>

theorem empty_timestamp_401_despite_equal_digest:
  "webhook_secret demo_settings = Some ''s3cret''
   \<and> headers_get (signed_request [1, 2, 3] []) ''X-Timestamp'' = Some []
   \<and> headers_get (signed_request [1, 2, 3] []) ''X-Signature'' =
       Some (hexdigest (hmac_sha256 demo_library (encode ''s3cret'')
               (body (signed_request [1, 2, 3] []) @ encode [])))
   \<and> status_code (snd (handle_sms_webhook demo_library demo_settings demo_state
                          (signed_request [1, 2, 3] []))) = 401"
  by (simp add: headers_get_signed demo_settings_fields
      handle_sms_webhook_def verify_signature_def truthy_def status_code_simps)

subsection \<open>C5: the signature is checked before the body is parsed\<close>

text \<open>
  Claim C5 at a request the code does not answer with 401. A secret is configured and the
  \<open>X-Signature\<close> header holds one byte above 127, so it is not the digest of the body;
  \<open>hmac.compare_digest\<close> raises \<open>TypeError\<close> on the non-ASCII string, nothing catches it,
  and the answer is 500 Internal Server Error. For a signature of ASCII characters the claim
  holds: see \<open>mismatched_signature_rejected\<close>.
\<close>

theorem non_ascii_signature_is_500:
  "handle_sms_webhook demo_library demo_settings demo_state garbled_request = ([], Inl TypeError)
   \<and> respond (snd (handle_sms_webhook demo_library demo_settings demo_state garbled_request)) =
       (500, Text ''Internal Server Error'')"
proof -
  have "\<not> is_ascii [CHR 0xFF]"
    by (simp add: is_ascii_def)
  then have "verify_signature demo_library demo_settings garbled_request = Inl TypeError"
    by (intro verify_signature_non_ascii [where secret = "''s3cret''" and ts = "''1700000000''"])
       (simp_all add: demo_settings_fields headers_get_garbled)
  then show ?thesis
    by (simp add: handle_sms_webhook_def respond_def)
qed

subsection \<open>C6: a payload for another webhook id is rejected\<close>

text \<open>
  Claim C6. For every request that passes signature verification and parses as a
  schema-valid payload whose \<open>webhookId\<close> differs from the currently registered webhook id,
  the handler returns HTTP 400; it prints nothing.
\<close>

theorem webhook_id_mismatch_rejected:
  assumes "verify_signature lib settings request = Inr ()"
    and "model_validate_json lib (body request) = Some p"
    and "state_webhook_id st = Some registered"
    and "webhook_id p \<noteq> registered"
  shows "handle_sms_webhook lib settings st request =
           ([], Inl (HTTPException 400 ''Invalid webhook ID''))
    \<and> respond (snd (handle_sms_webhook lib settings st request)) =
        (400, Json [(''detail'', ''Invalid webhook ID'')])"
  using assms by (simp add: handle_sms_webhook_def respond_def)

theorem webhook_id_mismatch_rejected_witness:
  "handle_sms_webhook demo_library demo_settings \<lparr>state_webhook_id = Some ''wh_999''\<rparr>
     (signed_request demo_body ''1700000000'') =
     ([], Inl (HTTPException 400 ''Invalid webhook ID''))
   \<and> respond (snd (handle_sms_webhook demo_library demo_settings
                     \<lparr>state_webhook_id = Some ''wh_999''\<rparr>
                     (signed_request demo_body ''1700000000''))) =
        (400, Json [(''detail'', ''Invalid webhook ID'')])"
  by (rule webhook_id_mismatch_rejected [where p = demo_payload and registered = "''wh_999''"])
     (simp_all add: verify_signed_request headers_get_signed demo_validate demo_payload_def)

subsection \<open>C7: without a secret no signature is needed\<close>

text \<open>
  Claim C7. When no shared secret is configured, the signature stage is skipped: every
  schema-valid payload whose \<open>webhookId\<close> is the registered id is answered with HTTP 200,
  whatever headers the request has, and so also when it has neither a signature nor a
  timestamp header.
\<close>

theorem no_secret_no_signature_needed:
  assumes "\<not> truthy (webhook_secret settings)"
    and "model_validate_json lib (body request) = Some p"
    and "state_webhook_id st = Some (webhook_id p)"
  shows "verify_signature lib settings request = Inr ()
    \<and> handle_sms_webhook lib settings st request =
        (received_sms_lines lib p, Inr [(''status'', ''ok'')])
    \<and> respond (snd (handle_sms_webhook lib settings st request)) =
        (200, Json [(''status'', ''ok'')])"
  using handle_accepts [OF verify_signature_no_secret [OF assms(1)] assms(2,3)]
    verify_signature_no_secret [OF assms(1), of lib request]
  by (simp add: respond_def)

theorem no_secret_no_signature_needed_witness:
  "headers_get (unsigned_request demo_body) ''X-Signature'' = None
   \<and> headers_get (unsigned_request demo_body) ''X-Timestamp'' = None
   \<and> respond (snd (handle_sms_webhook demo_library bare_settings demo_state
                      (unsigned_request demo_body))) =
        (200, Json [(''status'', ''ok'')])"
proof -
  have a: "\<not> truthy (webhook_secret bare_settings)"
    by (simp add: bare_settings_fields truthy_def)
  have b: "model_validate_json demo_library (body (unsigned_request demo_body)) =
             Some demo_payload"
    by (simp add: headers_get_unsigned demo_validate)
  have c: "state_webhook_id demo_state = Some (webhook_id demo_payload)"
    by (simp add: demo_state_def demo_payload_def)
  from no_secret_no_signature_needed [OF a b c] show ?thesis
    by (simp add: headers_get_unsigned respond_def)
qed

subsection \<open>C9: a replayed request is accepted again\<close>

text \<open>
  Claim C9, amended. For every valid request (a schema-valid body whose \<open>webhookId\<close> is the
  registered id and, if a secret is configured, a non-empty \<open>X-Timestamp\<close> header with an
  \<open>X-Signature\<close> header equal to the digest of the body followed by the timestamp),
  submitting the same request twice against the same registered state is answered with
  HTTP 200 both times, and its lines are printed both times.
\<close>

theorem replay_accepted_twice:
  assumes "model_validate_json lib (body request) = Some p"
    and "state_webhook_id st = Some (webhook_id p)"
    and "truthy (webhook_secret settings) \<Longrightarrow>
           \<exists>ts. ts \<noteq> [] \<and> headers_get request ''X-Timestamp'' = Some ts \<and>
             headers_get request ''X-Signature'' =
               Some (hexdigest (hmac_sha256 lib (encode (the (webhook_secret settings)))
                       (body request @ encode ts)))"
  shows "serve lib settings st [request, request] =
           (received_sms_lines lib p @ received_sms_lines lib p,
            [(200, Json [(''status'', ''ok'')]), (200, Json [(''status'', ''ok'')])])"
  using handle_accepts [OF verify_signature_correct [OF assms(3)] assms(1,2)]
  by (simp add: respond_def)

theorem replay_accepted_twice_witness:
  "serve demo_library demo_settings demo_state
     [signed_request demo_body ''1700000000'', signed_request demo_body ''1700000000''] =
     (received_sms_lines demo_library demo_payload @ received_sms_lines demo_library demo_payload,
      [(200, Json [(''status'', ''ok'')]), (200, Json [(''status'', ''ok'')])])"
proof -
  let ?r = "signed_request demo_body ''1700000000''"
  have a: "model_validate_json demo_library (body ?r) = Some demo_payload"
    by (simp add: headers_get_signed demo_validate)
  have b: "state_webhook_id demo_state = Some (webhook_id demo_payload)"
    by (simp add: demo_state_def demo_payload_def)
  have c: "\<exists>ts. ts \<noteq> [] \<and> headers_get ?r ''X-Timestamp'' = Some ts \<and>
             headers_get ?r ''X-Signature'' =
               Some (hexdigest (hmac_sha256 demo_library
                       (encode (the (webhook_secret demo_settings))) (body ?r @ encode ts)))"
    by (rule exI [of _ "''1700000000''"]) (simp add: headers_get_signed demo_settings_fields)
  show ?thesis
    by (rule replay_accepted_twice [OF a b c])
qed

text \<open>
  Claim C9 as stated fails at the request with an empty \<open>X-Timestamp\<close> header and the
  matching signature: body, webhook id and digest are right, and both submissions are
  answered 401.
\<close>

theorem replay_with_empty_timestamp_rejected_twice:
  "model_validate_json demo_library (body (signed_request demo_body [])) = Some demo_payload
   \<and> state_webhook_id demo_state = Some (webhook_id demo_payload)
   \<and> headers_get (signed_request demo_body []) ''X-Signature'' =
       Some (hexdigest (hmac_sha256 demo_library (encode (the (webhook_secret demo_settings)))
               (body (signed_request demo_body []) @ encode [])))
   \<and> serve demo_library demo_settings demo_state
       [signed_request demo_body [], signed_request demo_body []] =
       ([], [(401, Json [(''detail'', ''Missing signature header'')]),
             (401, Json [(''detail'', ''Missing signature header'')])])"
proof -
  have "truthy (webhook_secret demo_settings)"
    by (simp add: demo_settings_fields truthy_def)
  then have "handle_sms_webhook demo_library demo_settings demo_state
               (signed_request demo_body []) =
             ([], Inl (HTTPException 401 ''Missing signature header''))"
    by (rule empty_timestamp_is_missing) (simp add: headers_get_signed)
  then show ?thesis
    by (simp add: headers_get_signed demo_validate demo_settings_fields demo_state_def
        demo_payload_def respond_def)
qed

subsection \<open>C10: without a secret the signature headers are not read\<close>

text \<open>
  Claim C10. When no shared secret is configured, the handler's outcome does not depend on
  the headers: two requests with the same body, whatever their \<open>X-Signature\<close> and
  \<open>X-Timestamp\<close> headers and also when one of them has none, print the same lines and get
  the same response in every registered state.
\<close>

theorem headers_ignored_without_secret:
  assumes "\<not> truthy (webhook_secret settings)"
    and "body request' = body request"
  shows "handle_sms_webhook lib settings st request' = handle_sms_webhook lib settings st request
    \<and> respond (snd (handle_sms_webhook lib settings st request')) =
        respond (snd (handle_sms_webhook lib settings st request))"
  using assms by (simp add: handle_sms_webhook_def verify_signature_no_secret)

theorem headers_ignored_without_secret_witness:
  "headers_get forged_request ''X-Signature'' = Some ''deadbeef''
   \<and> headers_get (unsigned_request demo_body) ''X-Signature'' = None
   \<and> handle_sms_webhook demo_library bare_settings demo_state forged_request =
       handle_sms_webhook demo_library bare_settings demo_state (unsigned_request demo_body)"
proof -
  have a: "\<not> truthy (webhook_secret bare_settings)"
    by (simp add: bare_settings_fields truthy_def)
  have b: "body forged_request = body (unsigned_request demo_body)"
    by (simp add: headers_get_forged headers_get_unsigned)
  from headers_ignored_without_secret [OF a b, of demo_library demo_state] show ?thesis
    by (simp add: headers_get_forged headers_get_unsigned)
qed

section \<open>Claims about registration and shutdown\<close>

subsection \<open>C8: nothing happens without the credentials and the callback URL\<close>

text \<open>
  Claim C8. Unless the username, the password and the webhook callback URL are all present
  in the configuration, registration and unregistration are skipped: each makes no outbound
  call, prints nothing, raises nothing and leaves the application state as it was, whatever
  the gateway would have answered.
\<close>

theorem skipped_without_credentials:
  assumes "\<not> (truthy (api_username settings) \<and> truthy (api_password settings)
              \<and> truthy (webhook_url settings))"
  shows "register_webhook gateway settings st = ([], [], Inr st)
    \<and> unregister_webhook gateway settings st = ([], [], Inr st)"
  using assms by (auto simp: register_webhook_def unregister_webhook_def)

theorem skipped_without_credentials_witness:
  "register_webhook failing_gateway (demo_settings\<lparr>webhook_url := None\<rparr>) demo_state =
     ([], [], Inr demo_state)
   \<and> unregister_webhook failing_gateway (demo_settings\<lparr>webhook_url := None\<rparr>) demo_state =
     ([], [], Inr demo_state)"
  by (rule skipped_without_credentials) (simp add: truthy_def)

subsection \<open>C3: a failing unregistration at shutdown\<close>



end
